theory Spec2Isabelle
  imports Main
begin

section \<open>Capability tags\<close>

text \<open>
  The two \<^verbatim>\<open>const enum\<close>s of the protocol. \<^verbatim>\<open>Kind\<close> relates upstream messages to
  emitted items, \<^verbatim>\<open>Mode\<close> gives the timing of emitted items. Both enums have a member called
  \<^verbatim>\<open>Unknown\<close>, so the members carry the name of their enum as a prefix.
\<close>

datatype Kind = Kind_Unknown | Kind_Pull | Kind_Push

datatype Mode = Mode_Unknown | Mode_Sync | Mode_Async

text \<open>The numeric values the members are declared with.\<close>

fun Kind_value :: "Kind \<Rightarrow> nat" where
  "Kind_value Kind_Unknown = 0"
| "Kind_value Kind_Pull = 1"
| "Kind_value Kind_Push = 2"

fun Mode_value :: "Mode \<Rightarrow> nat" where
  "Mode_value Mode_Unknown = 0"
| "Mode_value Mode_Sync = 1"
| "Mode_value Mode_Async = 2"

section \<open>The interfaces\<close>

text \<open>
  The interfaces declare methods that return \<^verbatim>\<open>void\<close>: all a call does is its effect.
  The declarations say nothing about what that effect is, so it is a type parameter \<open>'e\<close> of
  every interface. Payloads and errors have the type \<^verbatim>\<open>any\<close>, which is opaque here; an
  optional parameter is an \<open>option\<close>, \<open>None\<close> when the argument is left out.
\<close>

typedecl any

record 'e Connection =
  message :: "any option \<Rightarrow> 'e"
  disconnect :: "'e"

record ('t, 'e) Sink =
  onConnect :: "'e Connection \<Rightarrow> 'e"
  onNext :: "'t \<Rightarrow> 'e"
  onDisconnect :: "any option \<Rightarrow> 'e"

text \<open>
  \<^verbatim>\<open>Source<T, K extends Kind = Kind, M extends Mode = Mode>\<close>: the fields \<^verbatim>\<open>kind\<close> and
  \<^verbatim>\<open>mode\<close> hold values of the enums. The type arguments \<^verbatim>\<open>K\<close> and \<^verbatim>\<open>M\<close> are subtypes of
  the enums, that is sets of their members: \<open>Source_of K M\<close> is the set of source objects that
  have the type \<^verbatim>\<open>Source<T, K, M>\<close>. The default arguments are the whole enums.
\<close>

record ('t, 'e) Source =
  kind :: Kind
  mode :: Mode
  connect :: "('t, 'e) Sink \<Rightarrow> 'e"

definition Source_of :: "Kind set \<Rightarrow> Mode set \<Rightarrow> ('t, 'e) Source set" where
  "Source_of K M = {s. kind s \<in> K \<and> mode s \<in> M}"

text \<open>
  \<^verbatim>\<open>type PreservingOp<T, R> = <K extends Kind, M extends Mode>(arg: Source<T, K, M>) => Source<R, K, M>\<close>:
  a function has this generic type when, for every choice of \<^verbatim>\<open>K\<close> and \<^verbatim>\<open>M\<close>, it takes
  every argument of type \<^verbatim>\<open>Source<T, K, M>\<close> to a result of type \<^verbatim>\<open>Source<R, K, M>\<close>.
\<close>

definition PreservingOp :: "(('t, 'e) Source \<Rightarrow> ('r, 'e) Source) \<Rightarrow> bool" where
  "PreservingOp f = (\<forall>K M. \<forall>arg \<in> Source_of K M. f arg \<in> Source_of K M)"

text \<open>
  \<^verbatim>\<open>type Subject<T, M extends Mode = Mode> = Sink<T> & Source<T, Kind.Push, M>\<close>: one
  object with the methods of a sink and the fields of a source whose kind is \<^verbatim>\<open>Push\<close>,
  here the pair of its sink side and its source side.
\<close>

type_synonym ('t, 'e) Subject = "('t, 'e) Sink \<times> ('t, 'e) Source"

definition Subject_of :: "Mode set \<Rightarrow> ('t, 'e) Subject set" where
  "Subject_of M = {sub. snd sub \<in> Source_of {Kind_Push} M}"

section \<open>The protocol record\<close>

text \<open>
  \<^verbatim>\<open>interface Protocol { name: string; async?: boolean }\<close>. The optional field reads as
  \<^verbatim>\<open>true\<close>, \<^verbatim>\<open>false\<close> or \<^verbatim>\<open>undefined\<close>; \<open>None\<close> is \<^verbatim>\<open>undefined\<close>. An interface that
  extends \<^verbatim>\<open>Protocol\<close> is an extension of the record.
\<close>

record Protocol =
  name :: string
  async :: "bool option"

text \<open>
  \<^verbatim>\<open>interface SyncProtocol extends Protocol { async: false }\<close> and
  \<^verbatim>\<open>interface AsyncProtocol extends Protocol { async: true }\<close> narrow the type of the field
  to one literal: as sets of protocol values.
\<close>

definition SyncProtocol :: "'z Protocol_scheme set" where
  "SyncProtocol = {p. async p = Some False}"

definition AsyncProtocol :: "'z Protocol_scheme set" where
  "AsyncProtocol = {p. async p = Some True}"

text \<open>
  \<^verbatim>\<open>Source<T, P extends Protocol = Protocol>\<close> of the declaration file \<^verbatim>\<open>types.d.ts\<close>, which
  carries a protocol instead of a kind and a mode. Its name and the name of its method are
  suffixed, since the source with kind and mode has the plain names. The type argument
  \<^verbatim>\<open>P\<close> is a subtype of \<^verbatim>\<open>Protocol\<close>, a set of protocol values; \<open>Source_P_of P\<close> is the
  set of source objects of type \<^verbatim>\<open>Source<T, P>\<close>.
\<close>

record ('t, 'z, 'e) Source_P =
  protocol :: "'z Protocol_scheme"
  connect_P :: "('t, 'e) Sink \<Rightarrow> 'e"

definition Source_P_of :: "'z Protocol_scheme set \<Rightarrow> ('t, 'z, 'e) Source_P set" where
  "Source_P_of P = {s. protocol s \<in> P}"

text \<open>
  \<^verbatim>\<open>type ProtocolPreservingOp<T, R> = <P extends Protocol>(arg: Source<T, P>) => Source<R, P>\<close>,
  read as \<open>PreservingOp\<close> is.
\<close>

definition ProtocolPreservingOp ::
  "(('t, 'z, 'e) Source_P \<Rightarrow> ('r, 'z, 'e) Source_P) \<Rightarrow> bool" where
  "ProtocolPreservingOp f = (\<forall>P. \<forall>arg \<in> Source_P_of P. f arg \<in> Source_P_of P)"

section \<open>Tag-preserving operators\<close>

text \<open>
  A source has the type \<^verbatim>\<open>Source<T, K, M>\<close> for the singleton types of its own kind and
  mode, and a \<open>PreservingOp\<close> must return a source of that same type: so the tags of the
  result are the tags of the argument.
\<close>

lemma PreservingOp_kind_mode:
  assumes typed: "PreservingOp f"
  shows "kind (f arg) = kind arg \<and> mode (f arg) = mode arg"
proof -
  have "arg \<in> Source_of {kind arg} {mode arg}"
    by (simp add: Source_of_def)
  with typed have "f arg \<in> Source_of {kind arg} {mode arg}"
    unfolding PreservingOp_def by blast
  then show ?thesis
    by (simp add: Source_of_def)
qed

lemma PreservingOp_iff:
  "PreservingOp f \<longleftrightarrow> (\<forall>arg. kind (f arg) = kind arg \<and> mode (f arg) = mode arg)"
proof
  assume "PreservingOp f"
  then show "\<forall>arg. kind (f arg) = kind arg \<and> mode (f arg) = mode arg"
    by (simp add: PreservingOp_kind_mode)
next
  assume "\<forall>arg. kind (f arg) = kind arg \<and> mode (f arg) = mode arg"
  then show "PreservingOp f"
    by (simp add: PreservingOp_def Source_of_def)
qed

lemma ProtocolPreservingOp_protocol:
  assumes typed: "ProtocolPreservingOp g"
  shows "protocol (g arg) = protocol arg"
proof -
  have "arg \<in> Source_P_of {protocol arg}"
    by (simp add: Source_P_of_def)
  with typed have "g arg \<in> Source_P_of {protocol arg}"
    unfolding ProtocolPreservingOp_def by blast
  then show ?thesis
    by (simp add: Source_P_of_def)
qed

lemma ProtocolPreservingOp_iff:
  "ProtocolPreservingOp g \<longleftrightarrow> (\<forall>arg. protocol (g arg) = protocol arg)"
proof
  assume "ProtocolPreservingOp g"
  then show "\<forall>arg. protocol (g arg) = protocol arg"
    by (simp add: ProtocolPreservingOp_protocol)
next
  assume "\<forall>arg. protocol (g arg) = protocol arg"
  then show "ProtocolPreservingOp g"
    by (simp add: ProtocolPreservingOp_def Source_P_of_def)
qed

text \<open>Stacking tag-preserving operators gives a tag-preserving operator.\<close>

lemma PreservingOp_comp:
  "PreservingOp f \<Longrightarrow> PreservingOp g \<Longrightarrow> PreservingOp (g \<circ> f)"
  by (simp add: PreservingOp_iff)

lemma ProtocolPreservingOp_comp:
  "ProtocolPreservingOp f \<Longrightarrow> ProtocolPreservingOp g \<Longrightarrow> ProtocolPreservingOp (g \<circ> f)"
  by (simp add: ProtocolPreservingOp_iff)

text \<open>The type is not empty talk: an operator that turns every source into a push source
  does not have it.\<close>

lemma retag_not_PreservingOp:
  "\<not> PreservingOp (\<lambda>s :: ('t, 'e) Source. s\<lparr>kind := Kind_Push\<rparr>)"
proof
  assume "PreservingOp (\<lambda>s :: ('t, 'e) Source. s\<lparr>kind := Kind_Push\<rparr>)"
  then have "kind ((\<lambda>s :: ('t, 'e) Source. s\<lparr>kind := Kind_Push\<rparr>)
        \<lparr>kind = Kind_Pull, mode = Mode_Sync, connect = c\<rparr>) =
      kind \<lparr>kind = Kind_Pull, mode = Mode_Sync, connect = c\<rparr>" for c
    by (simp only: PreservingOp_kind_mode)
  then show False by simp
qed

text \<open>The source side of a subject is a push source, and stays one under a tag-preserving
  operator.\<close>

lemma Subject_kind_Push: "sub \<in> Subject_of M \<Longrightarrow> kind (snd sub) = Kind_Push"
  by (simp add: Subject_of_def Source_of_def)

lemma PreservingOp_Subject:
  "PreservingOp f \<Longrightarrow> sub \<in> Subject_of M \<Longrightarrow> f (snd sub) \<in> Source_of {Kind_Push} M"
  by (simp add: PreservingOp_iff Subject_of_def Source_of_def)

text \<open>
  Claim C8. For every tag-preserving operator and every input source, the output source has
  the input's static type arguments, and so the same tags: a \<open>PreservingOp\<close> takes a
  \<^verbatim>\<open>Source<T, K, M>\<close> to a \<^verbatim>\<open>Source<R, K, M>\<close> and leaves the values of \<^verbatim>\<open>kind\<close> and
  \<^verbatim>\<open>mode\<close> as they are; a \<open>ProtocolPreservingOp\<close> takes a \<^verbatim>\<open>Source<T, P>\<close> to a
  \<^verbatim>\<open>Source<R, P>\<close> and leaves the value of \<^verbatim>\<open>protocol\<close> as it is.
\<close>

theorem PreservingOp_preserves_tags:
  "(PreservingOp f \<longrightarrow>
      (arg \<in> Source_of K M \<longrightarrow> f arg \<in> Source_of K M) \<and>
      kind (f arg) = kind arg \<and> mode (f arg) = mode arg) \<and>
   (ProtocolPreservingOp g \<longrightarrow>
      (parg \<in> Source_P_of P \<longrightarrow> g parg \<in> Source_P_of P) \<and>
      protocol (g parg) = protocol parg)"
  by (simp add: PreservingOp_iff ProtocolPreservingOp_iff Source_of_def Source_P_of_def)

text \<open>
  The theorem at an operator that maps the items of a source (numbers to whether they are
  zero) and hands every notification on, applied to a synchronous pull source, and at the
  same operator on sources that carry a synchronous protocol.
\<close>

theorem PreservingOp_preserves_tags_witness:
  "PreservingOp
     (\<lambda>s :: (nat, unit) Source.
        \<lparr>kind = kind s, mode = mode s,
         connect = (\<lambda>snk :: (bool, unit) Sink.
           connect s \<lparr>onConnect = onConnect snk, onNext = (\<lambda>n. onNext snk (n = 0)),
                      onDisconnect = onDisconnect snk\<rparr>)\<rparr>) \<and>
   \<lparr>kind = Kind_Pull, mode = Mode_Sync, connect = (\<lambda>snk :: (nat, unit) Sink. ())\<rparr>
     \<in> Source_of {Kind_Pull} {Mode_Sync} \<and>
   (\<lambda>s :: (nat, unit) Source.
        \<lparr>kind = kind s, mode = mode s,
         connect = (\<lambda>snk :: (bool, unit) Sink.
           connect s \<lparr>onConnect = onConnect snk, onNext = (\<lambda>n. onNext snk (n = 0)),
                      onDisconnect = onDisconnect snk\<rparr>)\<rparr>)
     \<lparr>kind = Kind_Pull, mode = Mode_Sync, connect = (\<lambda>snk :: (nat, unit) Sink. ())\<rparr>
     \<in> Source_of {Kind_Pull} {Mode_Sync} \<and>
   ProtocolPreservingOp
     (\<lambda>s :: (nat, unit, unit) Source_P.
        \<lparr>protocol = protocol s,
         connect_P = (\<lambda>snk :: (bool, unit) Sink.
           connect_P s \<lparr>onConnect = onConnect snk, onNext = (\<lambda>n. onNext snk (n = 0)),
                        onDisconnect = onDisconnect snk\<rparr>)\<rparr>) \<and>
   \<lparr>protocol = \<lparr>name = ''pull'', async = Some False\<rparr>,
    connect_P = (\<lambda>snk :: (nat, unit) Sink. ())\<rparr> \<in> Source_P_of SyncProtocol \<and>
   protocol
     ((\<lambda>s :: (nat, unit, unit) Source_P.
        \<lparr>protocol = protocol s,
         connect_P = (\<lambda>snk :: (bool, unit) Sink.
           connect_P s \<lparr>onConnect = onConnect snk, onNext = (\<lambda>n. onNext snk (n = 0)),
                        onDisconnect = onDisconnect snk\<rparr>)\<rparr>)
      \<lparr>protocol = \<lparr>name = ''pull'', async = Some False\<rparr>,
       connect_P = (\<lambda>snk :: (nat, unit) Sink. ())\<rparr>)
     \<in> SyncProtocol"
proof -
  let ?f = "\<lambda>s :: (nat, unit) Source.
        \<lparr>kind = kind s, mode = mode s,
         connect = (\<lambda>snk :: (bool, unit) Sink.
           connect s \<lparr>onConnect = onConnect snk, onNext = (\<lambda>n. onNext snk (n = 0)),
                      onDisconnect = onDisconnect snk\<rparr>)\<rparr>"
  let ?arg = "\<lparr>kind = Kind_Pull, mode = Mode_Sync, connect = (\<lambda>snk :: (nat, unit) Sink. ())\<rparr>"
  let ?g = "\<lambda>s :: (nat, unit, unit) Source_P.
        \<lparr>protocol = protocol s,
         connect_P = (\<lambda>snk :: (bool, unit) Sink.
           connect_P s \<lparr>onConnect = onConnect snk, onNext = (\<lambda>n. onNext snk (n = 0)),
                        onDisconnect = onDisconnect snk\<rparr>)\<rparr>"
  let ?parg = "\<lparr>protocol = \<lparr>name = ''pull'', async = Some False\<rparr>,
       connect_P = (\<lambda>snk :: (nat, unit) Sink. ())\<rparr>"
  have f: "PreservingOp ?f"
    by (simp add: PreservingOp_def Source_of_def)
  have arg: "?arg \<in> Source_of {Kind_Pull} {Mode_Sync}"
    by (simp add: Source_of_def)
  have g: "ProtocolPreservingOp ?g"
    by (simp add: ProtocolPreservingOp_def Source_P_of_def)
  have parg: "?parg \<in> Source_P_of SyncProtocol"
    by (simp add: Source_P_of_def SyncProtocol_def)
  from PreservingOp_preserves_tags
    [of ?f ?arg "{Kind_Pull}" "{Mode_Sync}" ?g ?parg SyncProtocol] f arg g parg
  have "?f ?arg \<in> Source_of {Kind_Pull} {Mode_Sync}"
    and "?g ?parg \<in> Source_P_of SyncProtocol"
    by blast+
  with f arg g parg show ?thesis
    by (simp add: Source_P_of_def)
qed

section \<open>Synchronous and asynchronous protocols\<close>

text \<open>The two interfaces that extend \<^verbatim>\<open>Protocol\<close> fix the flag to different literals, so no
  protocol value has both types.\<close>

lemma SyncProtocol_AsyncProtocol_disjoint: "SyncProtocol \<inter> AsyncProtocol = {}"
  by (auto simp: SyncProtocol_def AsyncProtocol_def)

end
